theory Spec2Isabelle
  imports Complex_Main "HOL-Library.Multiset"
begin

section \<open>Configuration space: the occupancy grid of \<open>create_grid\<close>\<close>

text \<open>
  The notebook's only function, \<open>create_grid(data, drone_altitude, safety_distance)\<close>,
  turns an \<open>N x 6\<close> array of obstacle rows into a two-dimensional array of zeros and ones.
  The embedding follows the Python line by line. The entries of the array are
  \<open>float64\<close> in the source; they are modelled as the real numbers they denote
  (rounding, infinities and NaN are outside the model), so \<open>np.floor\<close>, \<open>np.ceil\<close>,
  \<open>np.clip\<close> and \<open>int\<close> are the exact functions on reals.
\<close>

subsection \<open>Data\<close>

text \<open>One row of \<open>data\<close>: \<open>north, east, alt, d_north, d_east, d_alt = data[i, :]\<close>.\<close>

record obstacle =
  north :: real
  east :: real
  alt :: real
  d_north :: real
  d_east :: real
  d_alt :: real

text \<open>
  The two ways in which the numpy calls of \<open>create_grid\<close> raise: \<open>np.min\<close> and
  \<open>np.max\<close> of an array with no element, and \<open>np.zeros\<close> of a negative dimension.
  Both are \<open>ValueError\<close> in numpy.
\<close>

datatype error =
    ValueError_zero_size_reduction
  | ValueError_negative_dimensions

text \<open>A two-dimensional numpy array: its shape and its rows.\<close>

record ndarray =
  nrows :: nat
  ncols :: nat
  cells :: "real list list"

definition bind_err :: "error + 'a \<Rightarrow> ('a \<Rightarrow> error + 'b) \<Rightarrow> error + 'b" where
  "bind_err m f = (case m of Inl e \<Rightarrow> Inl e | Inr x \<Rightarrow> f x)"

subsection \<open>The numpy and Python primitives the function calls\<close>

fun np_min :: "real list \<Rightarrow> error + real" where
  "np_min [] = Inl ValueError_zero_size_reduction"
| "np_min (x # xs) = Inr (fold min xs x)"

fun np_max :: "real list \<Rightarrow> error + real" where
  "np_max [] = Inl ValueError_zero_size_reduction"
| "np_max (x # xs) = Inr (fold max xs x)"

definition np_floor :: "real \<Rightarrow> real" where
  "np_floor x = of_int \<lfloor>x\<rfloor>"

definition np_ceil :: "real \<Rightarrow> real" where
  "np_ceil x = of_int \<lceil>x\<rceil>"

text \<open>\<open>np.clip(a, a_min, a_max)\<close> is \<open>minimum(a_max, maximum(a, a_min))\<close>, also when
  \<open>a_min > a_max\<close> (the result is then \<open>a_max\<close>).\<close>

definition np_clip :: "real \<Rightarrow> real \<Rightarrow> real \<Rightarrow> real" where
  "np_clip a a_min a_max = min a_max (max a a_min)"

text \<open>Python's \<open>int\<close> of a float truncates towards zero.\<close>

definition py_int :: "real \<Rightarrow> int" where
  "py_int x = (if 0 \<le> x then \<lfloor>x\<rfloor> else \<lceil>x\<rceil>)"

definition np_zeros :: "int \<Rightarrow> int \<Rightarrow> error + ndarray" where
  "np_zeros r c =
     (if r < 0 \<or> c < 0 then Inl ValueError_negative_dimensions
      else Inr \<lparr>nrows = nat r, ncols = nat c,
                cells = replicate (nat r) (replicate (nat c) 0)\<rparr>)"

text \<open>
  A slice bound \<open>k\<close> on an axis of length \<open>n\<close>: a negative bound counts from the end,
  and every bound is cut to \<open>0..n\<close>. The slice \<open>start:stop\<close> selects the indices \<open>i\<close>
  with \<open>start' \<le> i < stop'\<close> for the normalised bounds.
\<close>

definition slice_bound :: "nat \<Rightarrow> int \<Rightarrow> nat" where
  "slice_bound n k = (if k < 0 then nat (max (k + int n) 0) else min (nat k) n)"

definition in_slice :: "nat \<Rightarrow> int \<Rightarrow> int \<Rightarrow> nat \<Rightarrow> bool" where
  "in_slice n start stop i \<longleftrightarrow> slice_bound n start \<le> i \<and> i < slice_bound n stop"

text \<open>The assignment \<open>grid[r0:r1, c0:c1] = v\<close>.\<close>

definition set_slice :: "ndarray \<Rightarrow> int \<Rightarrow> int \<Rightarrow> int \<Rightarrow> int \<Rightarrow> real \<Rightarrow> ndarray" where
  "set_slice grid r0 r1 c0 c1 v =
     grid\<lparr>cells :=
       map (\<lambda>(i, row).
              if in_slice (nrows grid) r0 r1 i
              then map (\<lambda>(j, x). if in_slice (ncols grid) c0 c1 j then v else x)
                     (enumerate 0 row)
              else row)
         (enumerate 0 (cells grid))\<rparr>"

subsection \<open>\<open>create_grid\<close>\<close>

definition north_min :: "obstacle list \<Rightarrow> error + real" where
  "north_min data =
     bind_err (np_min (map (\<lambda>ob. north ob - d_north ob) data)) (\<lambda>m. Inr (np_floor m))"

definition north_max :: "obstacle list \<Rightarrow> error + real" where
  "north_max data =
     bind_err (np_max (map (\<lambda>ob. north ob + d_north ob) data)) (\<lambda>m. Inr (np_ceil m))"

definition east_min :: "obstacle list \<Rightarrow> error + real" where
  "east_min data =
     bind_err (np_min (map (\<lambda>ob. east ob - d_east ob) data)) (\<lambda>m. Inr (np_floor m))"

definition east_max :: "obstacle list \<Rightarrow> error + real" where
  "east_max data =
     bind_err (np_max (map (\<lambda>ob. east ob + d_east ob) data)) (\<lambda>m. Inr (np_ceil m))"

text \<open>The test of the loop body: \<open>alt + d_alt + safety_distance > drone_altitude\<close>.\<close>

definition altitude_test :: "real \<Rightarrow> real \<Rightarrow> obstacle \<Rightarrow> bool" where
  "altitude_test drone_altitude safety_distance ob \<longleftrightarrow>
     alt ob + d_alt ob + safety_distance > drone_altitude"

text \<open>The four entries of the list \<open>obstacle\<close> of the loop body.\<close>

definition obstacle0 :: "real \<Rightarrow> int \<Rightarrow> real \<Rightarrow> obstacle \<Rightarrow> int" where
  "obstacle0 nmin north_size safety_distance ob =
     py_int (np_clip (north ob - d_north ob - safety_distance - nmin) 0 (of_int (north_size - 1)))"

definition obstacle1 :: "real \<Rightarrow> int \<Rightarrow> real \<Rightarrow> obstacle \<Rightarrow> int" where
  "obstacle1 nmin north_size safety_distance ob =
     py_int (np_clip (north ob + d_north ob + safety_distance - nmin) 0 (of_int (north_size - 1)))"

definition obstacle2 :: "real \<Rightarrow> int \<Rightarrow> real \<Rightarrow> obstacle \<Rightarrow> int" where
  "obstacle2 emin east_size safety_distance ob =
     py_int (np_clip (east ob - d_east ob - safety_distance - emin) 0 (of_int (east_size - 1)))"

definition obstacle3 :: "real \<Rightarrow> int \<Rightarrow> real \<Rightarrow> obstacle \<Rightarrow> int" where
  "obstacle3 emin east_size safety_distance ob =
     py_int (np_clip (east ob + d_east ob + safety_distance - emin) 0 (of_int (east_size - 1)))"

text \<open>One pass of the loop \<open>for i in range(data.shape[0])\<close>.\<close>

definition mark_obstacle ::
  "real \<Rightarrow> real \<Rightarrow> int \<Rightarrow> int \<Rightarrow> real \<Rightarrow> real \<Rightarrow> obstacle \<Rightarrow> ndarray \<Rightarrow> ndarray" where
  "mark_obstacle nmin emin north_size east_size drone_altitude safety_distance ob grid =
     (if altitude_test drone_altitude safety_distance ob then
        set_slice grid
          (obstacle0 nmin north_size safety_distance ob)
          (obstacle1 nmin north_size safety_distance ob + 1)
          (obstacle2 emin east_size safety_distance ob)
          (obstacle3 emin east_size safety_distance ob + 1)
          1
      else grid)"

definition create_grid :: "obstacle list \<Rightarrow> real \<Rightarrow> real \<Rightarrow> error + ndarray" where
  "create_grid data drone_altitude safety_distance =
     bind_err (north_min data) (\<lambda>nmin.
     bind_err (north_max data) (\<lambda>nmax.
     bind_err (east_min data) (\<lambda>emin.
     bind_err (east_max data) (\<lambda>emax.
       let north_size = py_int (np_ceil (nmax - nmin));
           east_size = py_int (np_ceil (emax - emin))
       in bind_err (np_zeros north_size east_size) (\<lambda>grid.
            Inr (fold (mark_obstacle nmin emin north_size east_size
                         drone_altitude safety_distance) data grid))))))"

subsection \<open>Notions used to state the properties\<close>

text \<open>An array whose rows agree with its shape, and the read \<open>grid[i, j]\<close> of a cell
  inside the shape.\<close>

definition well_shaped :: "ndarray \<Rightarrow> bool" where
  "well_shaped g \<longleftrightarrow>
     length (cells g) = nrows g \<and> (\<forall>row \<in> set (cells g). length row = ncols g)"

definition cell :: "ndarray \<Rightarrow> nat \<Rightarrow> nat \<Rightarrow> real" where
  "cell g i j = cells g ! i ! j"

text \<open>The all-zero array that \<open>np.zeros\<close> returns for dimensions that are not negative.\<close>

definition zeros :: "int \<Rightarrow> int \<Rightarrow> ndarray" where
  "zeros r c = \<lparr>nrows = nat r, ncols = nat c, cells = replicate (nat r) (replicate (nat c) 0)\<rparr>"

text \<open>The cells selected by the slice assignment of the loop body for one obstacle.\<close>

definition in_marked_rect ::
  "real \<Rightarrow> real \<Rightarrow> int \<Rightarrow> int \<Rightarrow> real \<Rightarrow> obstacle \<Rightarrow> nat \<Rightarrow> nat \<Rightarrow> bool" where
  "in_marked_rect nmin emin north_size east_size safety_distance ob i j \<longleftrightarrow>
     in_slice (nat north_size) (obstacle0 nmin north_size safety_distance ob)
       (obstacle1 nmin north_size safety_distance ob + 1) i \<and>
     in_slice (nat east_size) (obstacle2 emin east_size safety_distance ob)
       (obstacle3 emin east_size safety_distance ob + 1) j"

text \<open>
  The bounding extent in the specification's words: the floor of the least
  \<open>north - half_north\<close>, the ceiling of the greatest \<open>north + half_north\<close>, the same for
  east, and the dimensions \<open>ceil(north_max - north_min)\<close> by \<open>ceil(east_max - east_min)\<close>.
  Margin and altitude do not occur in them. They are compared below with what the code
  computes by \<open>np.min\<close>, \<open>np.max\<close>, \<open>np.floor\<close>, \<open>np.ceil\<close> and \<open>int\<close>.
\<close>

definition extent_north_min :: "obstacle list \<Rightarrow> real" where
  "extent_north_min data = of_int \<lfloor>Min ((\<lambda>ob. north ob - d_north ob) ` set data)\<rfloor>"

definition extent_north_max :: "obstacle list \<Rightarrow> real" where
  "extent_north_max data = of_int \<lceil>Max ((\<lambda>ob. north ob + d_north ob) ` set data)\<rceil>"

definition extent_east_min :: "obstacle list \<Rightarrow> real" where
  "extent_east_min data = of_int \<lfloor>Min ((\<lambda>ob. east ob - d_east ob) ` set data)\<rfloor>"

definition extent_east_max :: "obstacle list \<Rightarrow> real" where
  "extent_east_max data = of_int \<lceil>Max ((\<lambda>ob. east ob + d_east ob) ` set data)\<rceil>"

definition extent_rows :: "obstacle list \<Rightarrow> int" where
  "extent_rows data = \<lceil>extent_north_max data - extent_north_min data\<rceil>"

definition extent_cols :: "obstacle list \<Rightarrow> int" where
  "extent_cols data = \<lceil>extent_east_max data - extent_east_min data\<rceil>"




text \<open>Reading a result: the shape of the returned grid, and one of its cells.\<close>

definition result_shape :: "error + ndarray \<Rightarrow> (nat \<times> nat) option" where
  "result_shape r = (case r of Inl e \<Rightarrow> None | Inr g \<Rightarrow> Some (nrows g, ncols g))"

definition result_cell :: "error + ndarray \<Rightarrow> nat \<Rightarrow> nat \<Rightarrow> real option" where
  "result_cell r i j =
     (case r of Inl e \<Rightarrow> None
      | Inr g \<Rightarrow> if i < nrows g \<and> j < ncols g then Some (cell g i j) else None)"

subsection \<open>Inputs used in the examples\<close>

text \<open>Scenario A of the specification: one box of half-widths 2 around the origin.\<close>

definition scenario_A :: "obstacle list" where
  "scenario_A = [\<lparr>north = 0, east = 0, alt = 5, d_north = 2, d_east = 2, d_alt = 5\<rparr>]"

text \<open>Two boxes of half-widths 1, around \<open>(0, 0)\<close> and \<open>(10, 10)\<close>.\<close>

definition two_boxes :: "obstacle list" where
  "two_boxes =
     [\<lparr>north = 0, east = 0, alt = 5, d_north = 1, d_east = 1, d_alt = 5\<rparr>,
      \<lparr>north = 10, east = 10, alt = 5, d_north = 1, d_east = 1, d_alt = 5\<rparr>]"

text \<open>A single obstacle with no horizontal extent, at integer coordinates.\<close>

definition point_obstacle :: "obstacle list" where
  "point_obstacle = [\<lparr>north = 0, east = 0, alt = 5, d_north = 0, d_east = 0, d_alt = 5\<rparr>]"


text \<open>The grid of \<open>two_boxes\<close> at altitude 1 with margin 0: a block of three rows and
  columns at the low corner and a block of two at the high corner.\<close>

definition two_boxes_grid :: ndarray where
  "two_boxes_grid =
     \<lparr>nrows = 12, ncols = 12,
      cells = replicate 3 (replicate 3 1 @ replicate 9 0) @
              replicate 7 (replicate 12 0) @
              replicate 2 (replicate 10 0 @ replicate 2 1)\<rparr>"

section \<open>Lemmas on arrays and slices\<close>

lemma set_slice_shape [simp]:
  "nrows (set_slice g r0 r1 c0 c1 v) = nrows g"
  "ncols (set_slice g r0 r1 c0 c1 v) = ncols g"
  by (simp_all add: set_slice_def)

lemma set_slice_well_shaped:
  assumes "well_shaped g"
  shows "well_shaped (set_slice g r0 r1 c0 c1 v)"
  using assms unfolding well_shaped_def set_slice_def
  by (auto simp: in_set_enumerate_eq)

lemma set_slice_cell:
  assumes "well_shaped g" "i < nrows g" "j < ncols g"
  shows "cell (set_slice g r0 r1 c0 c1 v) i j =
    (if in_slice (nrows g) r0 r1 i \<and> in_slice (ncols g) c0 c1 j then v else cell g i j)"
proof -
  from assms have li: "i < length (cells g)" and lj: "j < length (cells g ! i)"
    by (auto simp: well_shaped_def)
  show ?thesis
    using li lj by (simp add: set_slice_def cell_def nth_enumerate_eq)
qed

lemma zeros_props [simp]:
  "well_shaped (zeros r c)" "nrows (zeros r c) = nat r" "ncols (zeros r c) = nat c"
  by (simp_all add: zeros_def well_shaped_def)

lemma zeros_cell: "i < nat r \<Longrightarrow> j < nat c \<Longrightarrow> cell (zeros r c) i j = 0"
  by (simp add: zeros_def cell_def)

text \<open>Two well-shaped arrays of one shape that agree on every cell are equal.\<close>

lemma ndarray_eqI:
  fixes g g' :: ndarray
  assumes "well_shaped g" "well_shaped g'" "nrows g = nrows g'" "ncols g = ncols g'"
    and "\<And>i j. i < nrows g \<Longrightarrow> j < ncols g \<Longrightarrow> cell g i j = cell g' i j"
  shows "g = g'"
proof -
  have "cells g = cells g'"
  proof (rule nth_equalityI)
    show "length (cells g) = length (cells g')"
      using assms by (simp add: well_shaped_def)
  next
    fix i assume i: "i < length (cells g)"
    then have i': "i < nrows g"
      using assms by (simp add: well_shaped_def)
    have l1: "length (cells g ! i) = ncols g"
      using assms(1) i by (simp add: well_shaped_def)
    have l2: "length (cells g' ! i) = ncols g"
      using assms i' by (simp add: well_shaped_def)
    show "cells g ! i = cells g' ! i"
    proof (rule nth_equalityI)
      show "length (cells g ! i) = length (cells g' ! i)"
        using l1 l2 by simp
    next
      fix j assume "j < length (cells g ! i)"
      then have "j < ncols g"
        using l1 by simp
      from assms(5)[OF i' this] show "cells g ! i ! j = cells g' ! i ! j"
        by (simp add: cell_def)
    qed
  qed
  then show ?thesis
    using assms(3,4) by (simp add: ndarray.equality)
qed

section \<open>The loop\<close>

lemma mark_obstacle_shape [simp]:
  "nrows (mark_obstacle nmin emin ns es a sd ob g) = nrows g"
  "ncols (mark_obstacle nmin emin ns es a sd ob g) = ncols g"
  by (simp_all add: mark_obstacle_def)

lemma mark_obstacle_well_shaped:
  "well_shaped g \<Longrightarrow> well_shaped (mark_obstacle nmin emin ns es a sd ob g)"
  by (simp add: mark_obstacle_def set_slice_well_shaped)

lemma mark_obstacle_cell:
  assumes "well_shaped g" "nrows g = nat ns" "ncols g = nat es" "i < nrows g" "j < ncols g"
  shows "cell (mark_obstacle nmin emin ns es a sd ob g) i j =
    (if altitude_test a sd ob \<and> in_marked_rect nmin emin ns es sd ob i j then 1 else cell g i j)"
  using assms by (simp add: mark_obstacle_def set_slice_cell in_marked_rect_def)

lemma fold_mark_shape [simp]:
  "nrows (fold (mark_obstacle nmin emin ns es a sd) data g) = nrows g"
  "ncols (fold (mark_obstacle nmin emin ns es a sd) data g) = ncols g"
  by (induction data arbitrary: g) simp_all

lemma fold_mark_well_shaped:
  "well_shaped g \<Longrightarrow> well_shaped (fold (mark_obstacle nmin emin ns es a sd) data g)"
  by (induction data arbitrary: g) (simp_all add: mark_obstacle_well_shaped)

text \<open>After the loop a cell is 1 when some obstacle of the list passed the test and
  selected it, and is what it was before otherwise.\<close>

lemma fold_mark_cell:
  assumes "well_shaped g" "nrows g = nat ns" "ncols g = nat es" "i < nrows g" "j < ncols g"
  shows "cell (fold (mark_obstacle nmin emin ns es a sd) data g) i j =
    (if \<exists>ob \<in> set data. altitude_test a sd ob \<and> in_marked_rect nmin emin ns es sd ob i j
     then 1 else cell g i j)"
  using assms
proof (induction data arbitrary: g)
  case Nil
  then show ?case by simp
next
  case (Cons ob data)
  let ?g = "mark_obstacle nmin emin ns es a sd ob g"
  have "cell (fold (mark_obstacle nmin emin ns es a sd) data ?g) i j =
    (if \<exists>ob \<in> set data. altitude_test a sd ob \<and> in_marked_rect nmin emin ns es sd ob i j
     then 1 else cell ?g i j)"
    using Cons.prems by (intro Cons.IH) (simp_all add: mark_obstacle_well_shaped)
  then show ?case
    using Cons.prems by (auto simp: mark_obstacle_cell)
qed


section \<open>The bounds and the result of \<open>create_grid\<close>\<close>

lemma np_min_eq: "xs \<noteq> [] \<Longrightarrow> np_min xs = Inr (Min (set xs))"
  by (cases xs) (simp_all add: Min.set_eq_fold [symmetric])

lemma np_max_eq: "xs \<noteq> [] \<Longrightarrow> np_max xs = Inr (Max (set xs))"
  by (cases xs) (simp_all add: Max.set_eq_fold [symmetric])

lemma bounds_eq:
  assumes "data \<noteq> []"
  shows "north_min data = Inr (extent_north_min data)"
    and "north_max data = Inr (extent_north_max data)"
    and "east_min data = Inr (extent_east_min data)"
    and "east_max data = Inr (extent_east_max data)"
  using assms
  by (simp_all add: north_min_def north_max_def east_min_def east_max_def bind_err_def
      np_min_eq np_max_eq np_floor_def np_ceil_def
      extent_north_min_def extent_north_max_def extent_east_min_def extent_east_max_def)

lemma north_min_Nil: "north_min [] = Inl ValueError_zero_size_reduction"
  by (simp add: north_min_def bind_err_def)

lemma py_int_of_int [simp]: "py_int (of_int k) = k"
  by (simp add: py_int_def)

lemma size_eq:
  "py_int (np_ceil (extent_north_max data - extent_north_min data)) = extent_rows data"
  "py_int (np_ceil (extent_east_max data - extent_east_min data)) = extent_cols data"
  by (simp_all add: np_ceil_def extent_rows_def extent_cols_def)

lemma create_grid_Nil: "create_grid [] a sd = Inl ValueError_zero_size_reduction"
  by (simp add: create_grid_def north_min_Nil bind_err_def)

lemma create_grid_nonempty:
  assumes "data \<noteq> []"
  shows "create_grid data a sd =
    (if extent_rows data < 0 \<or> extent_cols data < 0 then Inl ValueError_negative_dimensions
     else Inr (fold (mark_obstacle (extent_north_min data) (extent_east_min data)
                 (extent_rows data) (extent_cols data) a sd) data
                 (zeros (extent_rows data) (extent_cols data))))"
  using assms
  by (simp add: create_grid_def bounds_eq bind_err_def size_eq Let_def np_zeros_def zeros_def)

lemma create_grid_InrD:
  assumes "create_grid data a sd = Inr g"
  shows "data \<noteq> []" "0 \<le> extent_rows data" "0 \<le> extent_cols data"
    "g = fold (mark_obstacle (extent_north_min data) (extent_east_min data)
                 (extent_rows data) (extent_cols data) a sd) data
                 (zeros (extent_rows data) (extent_cols data))"
proof -
  show ne: "data \<noteq> []"
    using assms by (auto simp: create_grid_Nil)
  from assms create_grid_nonempty[OF ne, of a sd]
  show "0 \<le> extent_rows data" "0 \<le> extent_cols data"
    "g = fold (mark_obstacle (extent_north_min data) (extent_east_min data)
                 (extent_rows data) (extent_cols data) a sd) data
                 (zeros (extent_rows data) (extent_cols data))"
    by (auto split: if_splits)
qed

lemma create_grid_props:
  assumes "create_grid data a sd = Inr g"
  shows "well_shaped g" "nrows g = nat (extent_rows data)" "ncols g = nat (extent_cols data)"
  using create_grid_InrD[OF assms] by (simp_all add: fold_mark_well_shaped)

lemma create_grid_cell:
  assumes "create_grid data a sd = Inr g" "i < nrows g" "j < ncols g"
  shows "cell g i j = (if \<exists>ob \<in> set data. altitude_test a sd ob \<and>
      in_marked_rect (extent_north_min data) (extent_east_min data)
         (extent_rows data) (extent_cols data) sd ob i j then 1 else 0)"
proof -
  note D = create_grid_InrD[OF assms(1)] and P = create_grid_props[OF assms(1)]
  have "cell g i j = (if \<exists>ob \<in> set data. altitude_test a sd ob \<and>
      in_marked_rect (extent_north_min data) (extent_east_min data)
         (extent_rows data) (extent_cols data) sd ob i j then 1
      else cell (zeros (extent_rows data) (extent_cols data)) i j)"
    unfolding D(4) using assms(2,3) P(2,3)
    by (intro fold_mark_cell) simp_all
  then show ?thesis
    using assms(2,3) P(2,3) by (simp add: zeros_cell)
qed

section \<open>Index bounds of the marked rectangle\<close>

lemma np_clip_range:
  assumes "a_min \<le> a_max"
  shows "a_min \<le> np_clip a a_min a_max" "np_clip a a_min a_max \<le> a_max"
  using assms by (simp_all add: np_clip_def)

lemma np_clip_mono: "a \<le> b \<Longrightarrow> np_clip a lo hi \<le> np_clip b lo hi"
  by (simp add: np_clip_def min_def max_def)

lemma py_int_mono:
  assumes "x \<le> y"
  shows "py_int x \<le> py_int y"
proof (cases "0 \<le> x")
  case True
  then show ?thesis
    using assms by (simp add: py_int_def floor_mono)
next
  case False
  then have cx: "\<lceil>x\<rceil> \<le> 0"
    by (simp add: ceiling_le_iff)
  show ?thesis
  proof (cases "0 \<le> y")
    case True
    then have "0 \<le> \<lfloor>y\<rfloor>" by simp
    with cx have "\<lceil>x\<rceil> \<le> \<lfloor>y\<rfloor>" by linarith
    with True False show ?thesis by (simp add: py_int_def)
  next
    case ny: False
    with False show ?thesis
      using assms by (simp add: py_int_def ceiling_mono)
  qed
qed

lemma clipped_index_range:
  assumes "1 \<le> n"
  shows "0 \<le> py_int (np_clip x 0 (of_int (n - 1)))" "py_int (np_clip x 0 (of_int (n - 1))) \<le> n - 1"
proof -
  have le: "(0::real) \<le> of_int (n - 1)" using assms by simp
  note r = np_clip_range[OF le, of x]
  show "0 \<le> py_int (np_clip x 0 (of_int (n - 1)))" using r(1) by (simp add: py_int_def)
  show "py_int (np_clip x 0 (of_int (n - 1))) \<le> n - 1"
    using r by (simp add: py_int_def) linarith
qed

lemma in_slice_inside:
  assumes "0 \<le> lo" "0 \<le> hi" "hi \<le> int n - 1"
  shows "in_slice n lo (hi + 1) i \<longleftrightarrow> lo \<le> int i \<and> int i \<le> hi"
  using assms by (auto simp: in_slice_def slice_bound_def)

lemma in_slice_less: "in_slice n lo hi i \<Longrightarrow> i < n"
  by (auto simp: in_slice_def slice_bound_def split: if_splits)

lemma obstacle_index_range:
  assumes "1 \<le> ns"
  shows "0 \<le> obstacle0 nmin ns sd ob" "obstacle0 nmin ns sd ob \<le> ns - 1"
        "0 \<le> obstacle1 nmin ns sd ob" "obstacle1 nmin ns sd ob \<le> ns - 1"
        "0 \<le> obstacle2 nmin ns sd ob" "obstacle2 nmin ns sd ob \<le> ns - 1"
        "0 \<le> obstacle3 nmin ns sd ob" "obstacle3 nmin ns sd ob \<le> ns - 1"
  unfolding obstacle0_def obstacle1_def obstacle2_def obstacle3_def
  using clipped_index_range[OF assms] by simp_all

lemma in_marked_rect_iff:
  assumes "i < nat ns" "j < nat es"
  shows "in_marked_rect nmin emin ns es sd ob i j \<longleftrightarrow>
    obstacle0 nmin ns sd ob \<le> int i \<and> int i \<le> obstacle1 nmin ns sd ob \<and>
    obstacle2 emin es sd ob \<le> int j \<and> int j \<le> obstacle3 emin es sd ob"
proof -
  from assms have ns: "1 \<le> ns" and es: "1 \<le> es" by simp_all
  have n: "int (nat ns) = ns" and e: "int (nat es) = es" using ns es by simp_all
  show ?thesis
    unfolding in_marked_rect_def
    using obstacle_index_range[OF ns, of nmin sd ob] obstacle_index_range[OF es, of emin sd ob]
    by (simp add: in_slice_inside n e)
qed

lemma obstacle_index_mono:
  assumes "m1 \<le> m2"
  shows "obstacle0 nmin ns m2 ob \<le> obstacle0 nmin ns m1 ob"
        "obstacle1 nmin ns m1 ob \<le> obstacle1 nmin ns m2 ob"
        "obstacle2 nmin ns m2 ob \<le> obstacle2 nmin ns m1 ob"
        "obstacle3 nmin ns m1 ob \<le> obstacle3 nmin ns m2 ob"
  unfolding obstacle0_def obstacle1_def obstacle2_def obstacle3_def
  using assms by (intro py_int_mono np_clip_mono; simp)+

lemma extent_nonneg:
  assumes "data \<noteq> []" "\<forall>ob \<in> set data. 0 \<le> d_north ob \<and> 0 \<le> d_east ob"
  shows "0 \<le> extent_rows data" "0 \<le> extent_cols data"
proof -
  from assms(1) obtain ob where ob: "ob \<in> set data" by (cases data) auto
  let ?A = "(\<lambda>ob. north ob - d_north ob) ` set data"
  let ?B = "(\<lambda>ob. north ob + d_north ob) ` set data"
  have "Min ?A \<le> north ob - d_north ob" using ob by (intro Min_le) auto
  moreover have "north ob + d_north ob \<le> Max ?B" using ob by (intro Max_ge) auto
  moreover have "0 \<le> d_north ob" using assms(2) ob by simp
  ultimately have "Min ?A \<le> Max ?B" by linarith
  then have "\<lfloor>Min ?A\<rfloor> \<le> \<lceil>Max ?B\<rceil>" by linarith
  then show "0 \<le> extent_rows data"
    by (simp add: extent_rows_def extent_north_min_def extent_north_max_def)
  let ?C = "(\<lambda>ob. east ob - d_east ob) ` set data"
  let ?D = "(\<lambda>ob. east ob + d_east ob) ` set data"
  have "Min ?C \<le> east ob - d_east ob" using ob by (intro Min_le) auto
  moreover have "east ob + d_east ob \<le> Max ?D" using ob by (intro Max_ge) auto
  moreover have "0 \<le> d_east ob" using assms(2) ob by simp
  ultimately have "Min ?C \<le> Max ?D" by linarith
  then have "\<lfloor>Min ?C\<rfloor> \<le> \<lceil>Max ?D\<rceil>" by linarith
  then show "0 \<le> extent_cols data"
    by (simp add: extent_cols_def extent_east_min_def extent_east_max_def)
qed

lemma create_grid_returns:
  assumes "data \<noteq> []" "\<forall>ob \<in> set data. 0 \<le> d_north ob \<and> 0 \<le> d_east ob"
  shows "\<exists>g. create_grid data a sd = Inr g"
  using extent_nonneg[OF assms] by (simp add: create_grid_nonempty[OF assms(1)])

text \<open>The result depends on the obstacle list only through the set of its rows.\<close>

lemma extent_cong:
  assumes "set data = set data'"
  shows "extent_north_min data = extent_north_min data'" "extent_north_max data = extent_north_max data'"
    "extent_east_min data = extent_east_min data'" "extent_east_max data = extent_east_max data'"
    "extent_rows data = extent_rows data'" "extent_cols data = extent_cols data'"
  using assms
  by (simp_all add: extent_north_min_def extent_north_max_def extent_east_min_def
      extent_east_max_def extent_rows_def extent_cols_def)

lemma create_grid_set_cong:
  assumes "set data = set data'"
  shows "create_grid data a sd = create_grid data' a sd"
proof (cases "data = []")
  case True
  with assms have "data' = []" by simp
  with True show ?thesis by simp
next
  case False
  with assms have ne': "data' \<noteq> []" by auto
  note E = extent_cong[OF assms]
  let ?f = "mark_obstacle (extent_north_min data) (extent_east_min data)
                 (extent_rows data) (extent_cols data) a sd"
  let ?z = "zeros (extent_rows data) (extent_cols data)"
  have "fold ?f data ?z = fold ?f data' ?z"
  proof (rule ndarray_eqI)
    fix i j assume "i < nrows (fold ?f data ?z)" "j < ncols (fold ?f data ?z)"
    then have ij: "i < nrows ?z" "j < ncols ?z" by simp_all
    have "cell (fold ?f data ?z) i j = cell (fold ?f data' ?z) i j"
      using ij by (subst (1 2) fold_mark_cell) (simp_all add: assms)
    then show "cell (fold ?f data ?z) i j = cell (fold ?f data' ?z) i j" .
  qed (simp_all add: fold_mark_well_shaped)
  then show ?thesis
    by (simp add: create_grid_nonempty[OF False] create_grid_nonempty[OF ne'] E[symmetric])
qed

text \<open>The blocked cells of a returned grid, by the four indices of each obstacle.\<close>

lemma create_grid_blocked:
  assumes "create_grid data a sd = Inr g" "i < nrows g" "j < ncols g"
  shows "cell g i j = 1 \<longleftrightarrow>
    (\<exists>ob \<in> set data. altitude_test a sd ob \<and>
       obstacle0 (extent_north_min data) (int (nrows g)) sd ob \<le> int i \<and>
       int i \<le> obstacle1 (extent_north_min data) (int (nrows g)) sd ob \<and>
       obstacle2 (extent_east_min data) (int (ncols g)) sd ob \<le> int j \<and>
       int j \<le> obstacle3 (extent_east_min data) (int (ncols g)) sd ob)"
proof -
  note D = create_grid_InrD[OF assms(1)] and P = create_grid_props[OF assms(1)]
  have r: "int (nrows g) = extent_rows data" "int (ncols g) = extent_cols data"
    using D(2,3) P(2,3) by simp_all
  have ij: "i < nat (extent_rows data)" "j < nat (extent_cols data)"
    using assms(2,3) P(2,3) by simp_all
  show ?thesis
    unfolding create_grid_cell[OF assms] r
    by (simp add: in_marked_rect_iff[OF ij])
qed

section \<open>Properties of \<open>create_grid\<close>\<close>











text \<open>
  C5, as the claim states it, fails: for the obstacle of scenario A the grid is not
  7 by 7 and its origin is not \<open>(-3, -3)\<close>.
\<close>

theorem scenario_A_counterexample:
  "result_shape (create_grid scenario_A 1 1) \<noteq> Some (7, 7) \<and>
   north_min scenario_A \<noteq> Inr (- 3) \<and>
   east_min scenario_A \<noteq> Inr (- 3)"
  by code_simp

text \<open>
  C5, amended. The bounds come from the footprint without the margin: north and east
  both range over \<open>[-2, 2]\<close>, the origin is \<open>(-2, -2)\<close> and the grid is 4 by 4. The
  obstacle passes the altitude test and every cell, rows 0 to 3 and columns 0 to 3, is
  blocked.
\<close>

theorem scenario_A_grid:
  "create_grid scenario_A 1 1 =
     Inr \<lparr>nrows = 4, ncols = 4, cells = replicate 4 (replicate 4 1)\<rparr> \<and>
   north_min scenario_A = Inr (- 2) \<and> north_max scenario_A = Inr 2 \<and>
   east_min scenario_A = Inr (- 2) \<and> east_max scenario_A = Inr 2 \<and>
   list_all (altitude_test 1 1) scenario_A"
  by code_simp

text \<open>
  C6. Order invariance: two obstacle lists that are permutations of each other give the
  same result, the same grid cell by cell (or the same error). The bounds are a minimum
  and a maximum over the rows, and the loop only ever writes the value 1.
\<close>

theorem create_grid_permutation:
  assumes "mset data = mset data'"
  shows "create_grid data drone_altitude safety_distance =
         create_grid data' drone_altitude safety_distance"
  using mset_eq_setD[OF assms] by (rule create_grid_set_cong)

theorem create_grid_permutation_witness:
  "mset (rev two_boxes) = mset two_boxes \<and>
   rev two_boxes \<noteq> two_boxes \<and>
   create_grid (rev two_boxes) 1 0 = Inr two_boxes_grid \<and>
   create_grid two_boxes 1 0 = Inr two_boxes_grid"
proof -
  have p: "mset (rev two_boxes) = mset two_boxes"
    by simp
  have h: "create_grid two_boxes 1 0 = Inr two_boxes_grid"
    by code_simp
  have d: "rev two_boxes \<noteq> two_boxes"
    by (simp add: two_boxes_def)
  from create_grid_permutation[OF p, of 1 0] h p d show ?thesis
    by simp
qed

text \<open>
  C7. For a list that is not empty and has no negative horizontal half-width, and
  margins \<open>m1 \<le> m2\<close> at one altitude such that every obstacle passes the altitude test
  at \<open>m1\<close> exactly when it passes it at \<open>m2\<close>: both calls return grids of the same
  shape, and every cell blocked with margin \<open>m1\<close> is blocked with margin \<open>m2\<close>.
\<close>

theorem create_grid_margin_monotone:
  assumes "data \<noteq> []" "\<forall>ob \<in> set data. 0 \<le> d_north ob \<and> 0 \<le> d_east ob"
    and "m1 \<le> m2"
    and "\<forall>ob \<in> set data. altitude_test drone_altitude m1 ob = altitude_test drone_altitude m2 ob"
  shows "\<exists>g1 g2.
    create_grid data drone_altitude m1 = Inr g1 \<and>
    create_grid data drone_altitude m2 = Inr g2 \<and>
    nrows g2 = nrows g1 \<and> ncols g2 = ncols g1 \<and>
    (\<forall>i < nrows g1. \<forall>j < ncols g1. cell g1 i j = 1 \<longrightarrow> cell g2 i j = 1)"
proof -
  from create_grid_returns[OF assms(1,2)] obtain g1 g2
    where g1: "create_grid data drone_altitude m1 = Inr g1"
      and g2: "create_grid data drone_altitude m2 = Inr g2"
    by blast
  have s: "nrows g2 = nrows g1" "ncols g2 = ncols g1"
    using create_grid_props(2,3)[OF g1] create_grid_props(2,3)[OF g2] by simp_all
  have "cell g2 i j = 1" if ij: "i < nrows g1" "j < ncols g1" and b: "cell g1 i j = 1" for i j
  proof -
    from b create_grid_blocked[OF g1 ij] obtain ob where ob: "ob \<in> set data"
      "altitude_test drone_altitude m1 ob"
      "obstacle0 (extent_north_min data) (int (nrows g1)) m1 ob \<le> int i"
      "int i \<le> obstacle1 (extent_north_min data) (int (nrows g1)) m1 ob"
      "obstacle2 (extent_east_min data) (int (ncols g1)) m1 ob \<le> int j"
      "int j \<le> obstacle3 (extent_east_min data) (int (ncols g1)) m1 ob"
      by blast
    note M = obstacle_index_mono[OF assms(3)]
    have "altitude_test drone_altitude m2 ob"
      using assms(4) ob(1,2) by simp
    moreover have "obstacle0 (extent_north_min data) (int (nrows g1)) m2 ob \<le> int i"
      using M(1)[of "extent_north_min data" "int (nrows g1)" ob] ob(3) by linarith
    moreover have "int i \<le> obstacle1 (extent_north_min data) (int (nrows g1)) m2 ob"
      using M(2)[of "extent_north_min data" "int (nrows g1)" ob] ob(4) by linarith
    moreover have "obstacle2 (extent_east_min data) (int (ncols g1)) m2 ob \<le> int j"
      using M(3)[of "extent_east_min data" "int (ncols g1)" ob] ob(5) by linarith
    moreover have "int j \<le> obstacle3 (extent_east_min data) (int (ncols g1)) m2 ob"
      using M(4)[of "extent_east_min data" "int (ncols g1)" ob] ob(6) by linarith
    ultimately show ?thesis
      using create_grid_blocked[OF g2, of i j] ij s ob(1) by auto
  qed
  with g1 g2 s show ?thesis
    by blast
qed

theorem create_grid_margin_monotone_witness:
  "list_all (\<lambda>ob. 0 \<le> d_north ob \<and> 0 \<le> d_east ob) two_boxes \<and>
   list_all (\<lambda>ob. altitude_test 1 0 ob = altitude_test 1 1 ob) two_boxes \<and>
   create_grid two_boxes 1 0 = Inr two_boxes_grid \<and>
   cell two_boxes_grid 2 2 = 1 \<and>
   result_cell (create_grid two_boxes 1 0) 3 3 = Some 0 \<and>
   result_cell (create_grid two_boxes 1 1) 3 3 = Some 1 \<and>
   result_cell (create_grid two_boxes 1 1) 2 2 = Some 1"
proof -
  have ne: "two_boxes \<noteq> []"
    by (simp add: two_boxes_def)
  have v: "\<forall>ob \<in> set two_boxes. 0 \<le> d_north ob \<and> 0 \<le> d_east ob"
    by (simp add: two_boxes_def)
  have t: "\<forall>ob \<in> set two_boxes. altitude_test 1 0 ob = altitude_test 1 1 ob"
    by (simp add: two_boxes_def altitude_test_def)
  have h: "create_grid two_boxes 1 0 = Inr two_boxes_grid"
    by code_simp
  have c: "cell two_boxes_grid 2 2 = 1"
    by code_simp
  have s: "nrows two_boxes_grid = 12" "ncols two_boxes_grid = 12"
    by (simp_all add: two_boxes_grid_def)
  have e: "result_cell (create_grid two_boxes 1 0) 3 3 = Some 0"
    "result_cell (create_grid two_boxes 1 1) 3 3 = Some 1"
    by code_simp+
  from create_grid_margin_monotone[OF ne v _ t] h obtain g2
    where g2: "create_grid two_boxes 1 1 = Inr g2" "nrows g2 = 12" "ncols g2 = 12"
      and m: "\<forall>i < 12. \<forall>j < 12. cell two_boxes_grid i j = 1 \<longrightarrow> cell g2 i j = 1"
    by (auto simp: s)
  from m c have "cell g2 2 2 = 1"
    by simp
  then have "result_cell (create_grid two_boxes 1 1) 2 2 = Some 1"
    using g2 by (simp add: result_cell_def)
  with v t h c e show ?thesis
    by (simp add: list_all_iff)
qed



text \<open>
  C9, as the claim states it, fails on an input whose grid is empty. The single
  obstacle of \<open>point_obstacle\<close> has half-widths 0 at integer coordinates, so the grid
  has no row and no column; \<open>np.clip\<close> with the bounds 0 and \<open>-1\<close> returns \<open>-1\<close>, and the
  first index is \<open>-1\<close>, which does not lie in \<open>[0, rows-1]\<close>. No integer lies in that
  range when \<open>rows = 0\<close>, whatever value the clip returns. The slice \<open>-1:0\<close> of an axis
  of length 0 selects nothing, so nothing is written.
\<close>

theorem empty_grid_clamp_counterexample:
  "list_all (\<lambda>ob. 0 \<le> d_north ob \<and> 0 \<le> d_east ob \<and> 0 \<le> d_alt ob) point_obstacle \<and>
   list_all (altitude_test 1 1) point_obstacle \<and>
   result_shape (create_grid point_obstacle 1 1) = Some (0, 0) \<and>
   north_min point_obstacle = Inr 0 \<and>
   obstacle0 0 0 1 (hd point_obstacle) = - 1 \<and>
   \<not> (0 \<le> obstacle0 0 0 1 (hd point_obstacle) \<and> obstacle0 0 0 1 (hd point_obstacle) \<le> 0 - 1)"
  by code_simp

text \<open>
  C9, amended. For a list that is not empty and has no negative horizontal half-width,
  \<open>create_grid\<close> returns a grid, and for every obstacle: when the grid has a row, the two
  north indices lie in \<open>[0, rows-1]\<close>; when it has a column, the two east indices lie in
  \<open>[0, cols-1]\<close>; and every cell that the slice assignment selects lies inside the grid.
  (In a grid without rows or columns the indices are \<open>-1\<close> and the slice selects
  nothing.)
\<close>

theorem create_grid_indices_in_range:
  assumes "data \<noteq> []" "\<forall>ob \<in> set data. 0 \<le> d_north ob \<and> 0 \<le> d_east ob"
  shows "\<exists>grid nmin emin.
    create_grid data drone_altitude safety_distance = Inr grid \<and>
    north_min data = Inr nmin \<and> east_min data = Inr emin \<and>
    (\<forall>ob \<in> set data.
       (0 < nrows grid \<longrightarrow>
          0 \<le> obstacle0 nmin (int (nrows grid)) safety_distance ob \<and>
          obstacle0 nmin (int (nrows grid)) safety_distance ob \<le> int (nrows grid) - 1 \<and>
          0 \<le> obstacle1 nmin (int (nrows grid)) safety_distance ob \<and>
          obstacle1 nmin (int (nrows grid)) safety_distance ob \<le> int (nrows grid) - 1) \<and>
       (0 < ncols grid \<longrightarrow>
          0 \<le> obstacle2 emin (int (ncols grid)) safety_distance ob \<and>
          obstacle2 emin (int (ncols grid)) safety_distance ob \<le> int (ncols grid) - 1 \<and>
          0 \<le> obstacle3 emin (int (ncols grid)) safety_distance ob \<and>
          obstacle3 emin (int (ncols grid)) safety_distance ob \<le> int (ncols grid) - 1) \<and>
       (\<forall>i j. in_marked_rect nmin emin (int (nrows grid)) (int (ncols grid))
                 safety_distance ob i j \<longrightarrow> i < nrows grid \<and> j < ncols grid))"
proof -
  from create_grid_returns[OF assms] obtain grid
    where g: "create_grid data drone_altitude safety_distance = Inr grid" ..
  have r: "0 \<le> obstacle0 nmin (int (nrows grid)) safety_distance ob \<and>
          obstacle0 nmin (int (nrows grid)) safety_distance ob \<le> int (nrows grid) - 1 \<and>
          0 \<le> obstacle1 nmin (int (nrows grid)) safety_distance ob \<and>
          obstacle1 nmin (int (nrows grid)) safety_distance ob \<le> int (nrows grid) - 1"
    if "0 < nrows grid" for nmin ob
  proof -
    from that have "1 \<le> int (nrows grid)" by simp
    from obstacle_index_range(1-4)[OF this] show ?thesis by simp
  qed
  have c: "0 \<le> obstacle2 emin (int (ncols grid)) safety_distance ob \<and>
          obstacle2 emin (int (ncols grid)) safety_distance ob \<le> int (ncols grid) - 1 \<and>
          0 \<le> obstacle3 emin (int (ncols grid)) safety_distance ob \<and>
          obstacle3 emin (int (ncols grid)) safety_distance ob \<le> int (ncols grid) - 1"
    if "0 < ncols grid" for emin ob
  proof -
    from that have "1 \<le> int (ncols grid)" by simp
    from obstacle_index_range(5-8)[OF this] show ?thesis by simp
  qed
  have s: "i < nrows grid \<and> j < ncols grid"
    if "in_marked_rect nmin emin (int (nrows grid)) (int (ncols grid)) safety_distance ob i j"
    for nmin emin ob i j
    using that in_slice_less[of "nrows grid" _ _ i] in_slice_less[of "ncols grid" _ _ j]
    by (auto simp: in_marked_rect_def)
  show ?thesis
    using g bounds_eq(1,3)[OF assms(1)] r c s by blast
qed

theorem create_grid_indices_in_range_witness:
  "list_all (\<lambda>ob. 0 \<le> d_north ob \<and> 0 \<le> d_east ob) scenario_A \<and>
   result_shape (create_grid scenario_A 1 1) = Some (4, 4) \<and>
   north_min scenario_A = Inr (- 2) \<and>
   north (hd scenario_A) + d_north (hd scenario_A) + 1 - (- 2) = 5 \<and>
   0 \<le> obstacle0 (- 2) 4 1 (hd scenario_A) \<and> obstacle0 (- 2) 4 1 (hd scenario_A) \<le> 3 \<and>
   0 \<le> obstacle1 (- 2) 4 1 (hd scenario_A) \<and> obstacle1 (- 2) 4 1 (hd scenario_A) \<le> 3"
proof -
  have ne: "scenario_A \<noteq> []"
    by (simp add: scenario_A_def)
  have v: "\<forall>ob \<in> set scenario_A. 0 \<le> d_north ob \<and> 0 \<le> d_east ob"
    by (simp add: scenario_A_def)
  have h: "result_shape (create_grid scenario_A 1 1) = Some (4, 4)"
    by code_simp
  have n: "north_min scenario_A = Inr (- 2)"
    by code_simp
  have f: "north (hd scenario_A) + d_north (hd scenario_A) + 1 - (- 2) = 5"
    by (simp add: scenario_A_def)
  have m: "hd scenario_A \<in> set scenario_A"
    by (simp add: scenario_A_def)
  from create_grid_indices_in_range[OF ne v, of 1 1] obtain grid nmin emin
    where g: "create_grid scenario_A 1 1 = Inr grid" "north_min scenario_A = Inr nmin"
      and r: "\<forall>ob \<in> set scenario_A. 0 < nrows grid \<longrightarrow>
          0 \<le> obstacle0 nmin (int (nrows grid)) 1 ob \<and>
          obstacle0 nmin (int (nrows grid)) 1 ob \<le> int (nrows grid) - 1 \<and>
          0 \<le> obstacle1 nmin (int (nrows grid)) 1 ob \<and>
          obstacle1 nmin (int (nrows grid)) 1 ob \<le> int (nrows grid) - 1"
    by blast
  from g h n have e: "nrows grid = 4" "nmin = - 2"
    by (simp_all add: result_shape_def)
  from r m have "0 \<le> obstacle0 (- 2) 4 1 (hd scenario_A) \<and>
      obstacle0 (- 2) 4 1 (hd scenario_A) \<le> 3 \<and>
      0 \<le> obstacle1 (- 2) 4 1 (hd scenario_A) \<and> obstacle1 (- 2) 4 1 (hd scenario_A) \<le> 3"
    unfolding e by (elim ballE[of _ _ "hd scenario_A"]) simp_all
  with v h n f show ?thesis
    by (simp add: list_all_iff)
qed

text \<open>
  C10. Whenever \<open>create_grid\<close> returns, the rows of the grid agree with its shape and
  every cell holds 0 (free) or 1 (blocked): the grid starts as zeros and the loop only
  ever writes the value 1.
\<close>

theorem create_grid_cells_binary:
  assumes "create_grid data drone_altitude safety_distance = Inr grid"
  shows "length (cells grid) = nrows grid \<and>
    (\<forall>row \<in> set (cells grid). length row = ncols grid \<and> (\<forall>v \<in> set row. v = 0 \<or> v = 1))"
proof -
  note P = create_grid_props[OF assms]
  have len: "length (cells grid) = nrows grid" using P(1) by (simp add: well_shaped_def)
  have "length row = ncols grid \<and> (\<forall>v \<in> set row. v = 0 \<or> v = 1)" if row: "row \<in> set (cells grid)" for row
  proof -
    have l: "length row = ncols grid" using P(1) row by (simp add: well_shaped_def)
    from row obtain i where i: "i < length (cells grid)" "row = cells grid ! i"
      by (auto simp: in_set_conv_nth)
    have "v = 0 \<or> v = 1" if "v \<in> set row" for v
    proof -
      from that obtain j where j: "j < length row" "v = row ! j"
        by (auto simp: in_set_conv_nth)
      have "v = cell grid i j" using i j by (simp add: cell_def)
      moreover have "cell grid i j = 0 \<or> cell grid i j = 1"
        using create_grid_cell[OF assms, of i j] i j l len by (simp split: if_splits)
      ultimately show ?thesis by simp
    qed
    with l show ?thesis by simp
  qed
  with len show ?thesis by simp
qed

theorem create_grid_cells_binary_witness:
  "create_grid two_boxes 1 0 = Inr two_boxes_grid \<and>
   length (cells two_boxes_grid) = nrows two_boxes_grid \<and>
   list_all (\<lambda>row. length row = ncols two_boxes_grid \<and> list_all (\<lambda>v. v = 0 \<or> v = 1) row)
     (cells two_boxes_grid)"
proof -
  have h: "create_grid two_boxes 1 0 = Inr two_boxes_grid"
    by code_simp
  from create_grid_cells_binary[OF h] h show ?thesis
    by (simp add: list_all_iff)
qed

end
